theory Spec2Isabelle
  imports Main "HOL-Library.Sublist"
begin

section \<open>Errors and results\<close>

text \<open>
  The exceptions an operation can end with. The first four are the error taxonomy of the
  repository manager; \<open>ValueError\<close> is the Python built-in that \<open>get_manager\<close>
  raises in \<^verbatim>\<open>tools.py\<close>.
\<close>

datatype error =
    NotFoundError
  | ValidationError
  | ConflictError
  | RepositoryNotInitializedError
  | ValueError

definition taxonomy :: "error list" where
  "taxonomy = [NotFoundError, ValidationError, ConflictError, RepositoryNotInitializedError]"

section \<open>Result entities (\<^verbatim>\<open>models.py\<close>)\<close>

text \<open>
  Modelled from the spec: \<^verbatim>\<open>models.py\<close> is not among the sources; the four result
  entities carry the fields that section 3 of the specification lists, and the fields
  that \<^verbatim>\<open>tools.py\<close> reads.
\<close>

record RepoStatus =
  is_initialized :: bool
  current_branch :: "string option"
  has_changes :: bool
  staged_files :: "string list"
  modified_files :: "string list"
  untracked_files :: "string list"

record CommitRecord =
  sha :: string
  message :: string
  author :: string
  timestamp :: string

record CommitList =
  branch :: string
  commits :: "CommitRecord list"

datatype change_status = added | modified | deleted | renamed

record FileChange =
  path :: string
  status :: change_status
  patch :: string

record CommitDiff =
  from_sha :: string
  to_sha :: string
  files_changed :: "FileChange list"
  insertions :: nat
  deletions :: nat

record BranchInfo =
  name :: string
  is_current :: bool
  last_commit_sha :: string
  last_commit_message :: string

section \<open>The on-disk state\<close>

text \<open>
  Modelled from the spec: the version-control engine behind \<^verbatim>\<open>git_utils.GitManager\<close>
  is not among the sources. A snapshot (working tree, staged snapshot, tree of a commit)
  is an association list from file path to the file's lines; the first entry of a path
  is the one that counts. A commit object has one parent at most, since the operation
  surface has no merge. The object store lists the newest object first.
\<close>

type_synonym tree = "(string \<times> string list) list"

record commit_obj =
  obj_sha :: string
  obj_message :: string
  obj_author :: string
  obj_time :: string
  obj_parent :: "string option"
  obj_tree :: tree

record repository =
  repo_objects :: "commit_obj list"
  repo_branches :: "(string \<times> string) list"
  repo_head :: string
  repo_index :: tree

record directory =
  dir_worktree :: tree
  dir_git :: "repository option"

text \<open>
  Modelled from the spec: the world an operation runs in is the directories by path, and
  what the engine reads from its environment when it writes a commit (the configured
  identity and the clock, already in ISO-8601 form).
\<close>

record world =
  dirs :: "string \<rightharpoonup> directory"
  engine_user :: string
  engine_now :: string

type_synonym 'a io = "world \<Rightarrow> (error + 'a) \<times> world"

section \<open>Snapshots, objects and references\<close>

text \<open>
  Modelled from the spec: what the engine computes on snapshots, objects and references is
  not among the sources. The paths of a snapshot, and the paths on which two snapshots
  differ (a path that one of them lacks included).
\<close>

definition tree_paths :: "tree \<Rightarrow> string list" where
  "tree_paths t = remdups (map fst t)"

definition changed_paths :: "tree \<Rightarrow> tree \<Rightarrow> string list" where
  "changed_paths old new =
     filter (\<lambda>p. map_of old p \<noteq> map_of new p) (remdups (map fst old @ map fst new))"

definition hex_digit :: "nat \<Rightarrow> char" where
  "hex_digit n = ''0123456789abcdef'' ! (n mod 16)"

fun hex_digits :: "nat \<Rightarrow> nat \<Rightarrow> string" where
  "hex_digits 0 n = []"
| "hex_digits (Suc k) n = hex_digits k (n div 16) @ [hex_digit n]"

text \<open>
  Modelled from the spec: a commit is named by a 40-character hexadecimal string. The engine
  hashes the content of the commit; the model takes the number of objects already in the
  store, written with 40 hexadecimal digits.
\<close>

definition mk_sha :: "nat \<Rightarrow> string" where
  "mk_sha n = hex_digits 40 n"

definition find_obj :: "repository \<Rightarrow> string \<Rightarrow> commit_obj option" where
  "find_obj r s = find (\<lambda>c. obj_sha c = s) (repo_objects r)"

definition head_sha :: "repository \<Rightarrow> string option" where
  "head_sha r = map_of (repo_branches r) (repo_head r)"

definition tree_at :: "repository \<Rightarrow> string option \<Rightarrow> tree" where
  "tree_at r tip =
     (case tip of
        None \<Rightarrow> []
      | Some s \<Rightarrow> (case find_obj r s of None \<Rightarrow> [] | Some c \<Rightarrow> obj_tree c))"

text \<open>
  Modelled from the spec: a branch argument is the sentinel \<open>HEAD\<close> for the checked-out
  branch, or a branch name.
\<close>

definition resolve_branch :: "repository \<Rightarrow> string \<Rightarrow> string option" where
  "resolve_branch r b = (if b = ''HEAD'' then head_sha r else map_of (repo_branches r) b)"

text \<open>
  Modelled from the spec: a commit reference is \<open>HEAD\<close>, a branch name, a full hash, or
  (the engine's convention) an abbreviated hash of four characters or more that one object
  only starts with.
\<close>

definition resolve_ref :: "repository \<Rightarrow> string \<Rightarrow> commit_obj option" where
  "resolve_ref r ref =
     (case resolve_branch r ref of
        Some s \<Rightarrow> find_obj r s
      | None \<Rightarrow>
          (if ref = ''HEAD'' \<or> length ref < 4 then None
           else (case filter (\<lambda>c. take (length ref) (obj_sha c) = ref) (repo_objects r) of
                   [c] \<Rightarrow> Some c
                 | _ \<Rightarrow> None)))"

text \<open>
  Modelled from the spec: the history of a commit is the commit, then its parent, and so
  on. A parent is older than its child, so it is looked for among the objects behind the
  child in the store.
\<close>

fun history :: "commit_obj list \<Rightarrow> string option \<Rightarrow> commit_obj list" where
  "history [] tip = []"
| "history (c # cs) None = []"
| "history (c # cs) (Some s) =
     (if obj_sha c = s then c # history cs (obj_parent c) else history cs (Some s))"

definition to_record :: "commit_obj \<Rightarrow> CommitRecord" where
  "to_record c =
     \<lparr>sha = obj_sha c, message = obj_message c, author = obj_author c, timestamp = obj_time c\<rparr>"

fun set_branch :: "string \<Rightarrow> string \<Rightarrow> (string \<times> string) list \<Rightarrow> (string \<times> string) list" where
  "set_branch b s [] = [(b, s)]"
| "set_branch b s ((b', s') # bs) =
     (if b' = b then (b, s) # bs else (b', s') # set_branch b s bs)"

text \<open>
  Modelled from the spec: writing a commit of the staged snapshot on the checked-out branch
  adds the object to the store and moves the pointer of the branch to it.
\<close>

definition new_commit :: "world \<Rightarrow> string \<Rightarrow> repository \<Rightarrow> commit_obj" where
  "new_commit w msg r =
     \<lparr>obj_sha = mk_sha (length (repo_objects r)), obj_message = msg,
      obj_author = engine_user w, obj_time = engine_now w,
      obj_parent = head_sha r, obj_tree = repo_index r\<rparr>"

definition write_commit :: "world \<Rightarrow> string \<Rightarrow> repository \<Rightarrow> repository" where
  "write_commit w msg r =
     (let c = new_commit w msg r
      in r\<lparr>repo_objects := c # repo_objects r,
           repo_branches := set_branch (repo_head r) (obj_sha c) (repo_branches r)\<rparr>)"

definition put_dir :: "string \<Rightarrow> directory \<Rightarrow> world \<Rightarrow> world" where
  "put_dir p d w = w\<lparr>dirs := (dirs w)(p \<mapsto> d)\<rparr>"

section \<open>Differences between snapshots\<close>

text \<open>
  Modelled from the spec: the engine's diff is not among the sources. The difference of two
  versions of a file is an edit script over its lines; the per-file statistics count the
  inserted and the deleted lines of the script, and the patch body writes one line of the
  script per line, marked as in a unified diff. Rename detection is left to the engine: the
  model reports a moved file as one deleted and one added.
\<close>

datatype edit = Keep | Del | Ins

fun line_diff :: "string list \<Rightarrow> string list \<Rightarrow> (edit \<times> string) list" where
  "line_diff [] ys = map (Pair Ins) ys"
| "line_diff (x # xs) [] = map (Pair Del) (x # xs)"
| "line_diff (x # xs) (y # ys) =
     (if x = y then (Keep, x) # line_diff xs ys
      else (let a = line_diff xs (y # ys); b = line_diff (x # xs) ys
            in if length a \<le> length b then (Del, x) # a else (Ins, y) # b))"

text \<open>\<^verbatim>\<open>sep.join(xs)\<close> of Python, and the line feed.\<close>

fun join_str :: "string \<Rightarrow> string list \<Rightarrow> string" where
  "join_str sep [] = []"
| "join_str sep [x] = x"
| "join_str sep (x # y # ys) = x @ sep @ join_str sep (y # ys)"

definition newline :: string where
  "newline = [CHR 0x0A]"

fun render_edit :: "edit \<times> string \<Rightarrow> string" where
  "render_edit (Keep, l) = CHR '' '' # l"
| "render_edit (Del, l) = CHR ''-'' # l"
| "render_edit (Ins, l) = CHR ''+'' # l"

definition count_edit :: "edit \<Rightarrow> (edit \<times> string) list \<Rightarrow> nat" where
  "count_edit e sc = length (filter (\<lambda>x. fst x = e) sc)"

definition lines_at :: "tree \<Rightarrow> string \<Rightarrow> string list" where
  "lines_at t p = (case map_of t p of None \<Rightarrow> [] | Some ls \<Rightarrow> ls)"

definition file_script :: "tree \<Rightarrow> tree \<Rightarrow> string \<Rightarrow> (edit \<times> string) list" where
  "file_script old new p = line_diff (lines_at old p) (lines_at new p)"

definition file_change :: "tree \<Rightarrow> tree \<Rightarrow> string \<Rightarrow> FileChange" where
  "file_change old new p =
     \<lparr>path = p,
      status = (case map_of old p of
                  None \<Rightarrow> added
                | Some a \<Rightarrow> (case map_of new p of None \<Rightarrow> deleted | Some b \<Rightarrow> modified)),
      patch = join_str newline (map render_edit (file_script old new p))\<rparr>"

definition diff_commits :: "commit_obj \<Rightarrow> commit_obj \<Rightarrow> CommitDiff" where
  "diff_commits c1 c2 =
     (let old = obj_tree c1; new = obj_tree c2; ps = changed_paths old new
      in \<lparr>from_sha = obj_sha c1, to_sha = obj_sha c2,
          files_changed = map (file_change old new) ps,
          insertions = sum_list (map (\<lambda>p. count_edit Ins (file_script old new p)) ps),
          deletions = sum_list (map (\<lambda>p. count_edit Del (file_script old new p)) ps)\<rparr>)"

section \<open>The repository manager (\<^verbatim>\<open>git_utils.GitManager\<close>)\<close>

text \<open>
  Modelled from the spec: \<^verbatim>\<open>git_utils.py\<close> is not among the sources. Each method
  below follows the contract that section 4.1 of the specification gives the operation of
  the same name. The manager's only state is the path it was constructed with.
\<close>

datatype GitManager = GitManager (bound_path: string)

text \<open>
  Modelled from the spec: \<open>is_initialized\<close> is a pure predicate, true when the bound path
  exists and holds a repository.
\<close>

definition GitManager_is_initialized :: "GitManager \<Rightarrow> world \<Rightarrow> bool" where
  "GitManager_is_initialized m w =
     (case dirs w (bound_path m) of None \<Rightarrow> False | Some d \<Rightarrow> dir_git d \<noteq> None)"

text \<open>
  Modelled from the spec: opening the repository at the bound path gives \<open>NotFoundError\<close>
  when the path does not exist and \<open>RepositoryNotInitializedError\<close> when it holds no
  repository.
\<close>

definition open_repo :: "GitManager \<Rightarrow> (directory \<times> repository) io" where
  "open_repo m w =
     (case dirs w (bound_path m) of
        None \<Rightarrow> (Inl NotFoundError, w)
      | Some d \<Rightarrow>
          (case dir_git d of
             None \<Rightarrow> (Inl RepositoryNotInitializedError, w)
           | Some r \<Rightarrow> (Inr (d, r), w)))"

definition empty_repository :: repository where
  "empty_repository =
     \<lparr>repo_objects = [], repo_branches = [], repo_head = ''main'', repo_index = []\<rparr>"

definition initial_commit_message :: string where
  "initial_commit_message = ''Initial commit''"

text \<open>
  Modelled from the spec: \<open>initialize\<close> is idempotent (an existing repository is left as it
  is), creates the directory when the path does not exist, and with \<open>initial_commit\<close>
  stages and commits what a non-empty directory holds under a fixed placeholder message.
  In an empty directory the model skips the commit. The wording of the status strings is
  the model's.
\<close>

definition GitManager_initialize :: "GitManager \<Rightarrow> bool \<Rightarrow> string io" where
  "GitManager_initialize m initial_commit w =
     (let p = bound_path m;
          d = (case dirs w p of None \<Rightarrow> \<lparr>dir_worktree = [], dir_git = None\<rparr> | Some d0 \<Rightarrow> d0)
      in case dir_git d of
           Some r \<Rightarrow> (Inr (''Repository already initialized at '' @ p), w)
         | None \<Rightarrow>
             (if initial_commit \<and> dir_worktree d \<noteq> [] then
                (let r1 = write_commit w initial_commit_message
                            (empty_repository\<lparr>repo_index := dir_worktree d\<rparr>)
                 in (Inr (''Initialized repository at '' @ p @ '' with initial commit''),
                     put_dir p (d\<lparr>dir_git := Some r1\<rparr>) w))
              else
                (Inr (''Initialized empty repository at '' @ p),
                 put_dir p (d\<lparr>dir_git := Some empty_repository\<rparr>) w)))"

text \<open>
  Modelled from the spec: the status of an uninitialized repository is the empty status;
  a path that does not exist is a \<open>NotFoundError\<close>. Staged files differ between HEAD and
  the staged snapshot, modified files are staged files whose working copy differs,
  untracked files are in the working tree only. The world is returned as it was.
\<close>

definition GitManager_get_status :: "GitManager \<Rightarrow> RepoStatus io" where
  "GitManager_get_status m w =
     (case dirs w (bound_path m) of
        None \<Rightarrow> (Inl NotFoundError, w)
      | Some d \<Rightarrow>
          (case dir_git d of
             None \<Rightarrow>
               (Inr \<lparr>is_initialized = False, current_branch = None, has_changes = False,
                     staged_files = [], modified_files = [], untracked_files = []\<rparr>, w)
           | Some r \<Rightarrow>
               (let st = changed_paths (tree_at r (head_sha r)) (repo_index r);
                    md = filter (\<lambda>p. map_of (dir_worktree d) p \<noteq> map_of (repo_index r) p)
                           (tree_paths (repo_index r));
                    un = filter (\<lambda>p. map_of (repo_index r) p = None)
                           (tree_paths (dir_worktree d))
                in (Inr \<lparr>is_initialized = True, current_branch = Some (repo_head r),
                         has_changes = (st \<noteq> [] \<or> md \<noteq> [] \<or> un \<noteq> []),
                         staged_files = st, modified_files = md, untracked_files = un\<rparr>, w))))"

definition no_changes_message :: string where
  "no_changes_message = ''No changes to commit''"

text \<open>
  Modelled from the spec: \<open>commit_all\<close> initializes the repository if it is absent (without
  an initial commit), rejects an empty message with \<open>ValidationError\<close>, stages the whole
  working tree, and commits unless the staged snapshot is the one of HEAD, where it returns
  the sentinel message instead of a hash. The wording of the sentinel is the model's.
\<close>

definition GitManager_commit_all :: "GitManager \<Rightarrow> string \<Rightarrow> string io" where
  "GitManager_commit_all m msg w =
     (case (if GitManager_is_initialized m w then (Inr [], w)
            else GitManager_initialize m False w) of
        (Inl e, w1) \<Rightarrow> (Inl e, w1)
      | (Inr u, w1) \<Rightarrow>
          (if msg = [] then (Inl ValidationError, w1)
           else (case open_repo m w1 of
                   (Inl e, w2) \<Rightarrow> (Inl e, w2)
                 | (Inr (d, r), w2) \<Rightarrow>
                     (let r1 = r\<lparr>repo_index := dir_worktree d\<rparr>
                      in if changed_paths (tree_at r1 (head_sha r1)) (repo_index r1) = [] then
                           (Inr no_changes_message,
                            put_dir (bound_path m) (d\<lparr>dir_git := Some r1\<rparr>) w2)
                         else
                           (Inr (obj_sha (new_commit w2 msg r1)),
                            put_dir (bound_path m)
                              (d\<lparr>dir_git := Some (write_commit w2 msg r1)\<rparr>) w2)))))"

text \<open>
  Modelled from the spec: \<open>RepositoryNotInitializedError\<close> when the repository has no commit
  yet, \<open>NotFoundError\<close> when the branch does not resolve; otherwise the history of the
  branch tip, cut to \<open>limit\<close> entries (none for a limit below one).
\<close>

definition GitManager_list_commits :: "GitManager \<Rightarrow> string \<Rightarrow> int \<Rightarrow> CommitList io" where
  "GitManager_list_commits m b lim w =
     (case open_repo m w of
        (Inl e, w1) \<Rightarrow> (Inl e, w1)
      | (Inr (d, r), w1) \<Rightarrow>
          (if repo_objects r = [] then (Inl RepositoryNotInitializedError, w1)
           else (case resolve_branch r b of
                   None \<Rightarrow> (Inl NotFoundError, w1)
                 | Some s \<Rightarrow>
                     (Inr \<lparr>branch = b,
                           commits = map to_record
                             (take (nat lim) (history (repo_objects r) (Some s)))\<rparr>, w1))))"

text \<open>
  Modelled from the spec: both references must resolve (\<open>NotFoundError\<close> otherwise); the
  result compares the two commits' snapshots directly and carries the full hashes. Two
  references to the same commit give the empty difference, not an error.
\<close>

definition GitManager_compare_commits :: "GitManager \<Rightarrow> string \<Rightarrow> string \<Rightarrow> CommitDiff io" where
  "GitManager_compare_commits m from_ref to_ref w =
     (case open_repo m w of
        (Inl e, w1) \<Rightarrow> (Inl e, w1)
      | (Inr (d, r), w1) \<Rightarrow>
          (case resolve_ref r from_ref of
             None \<Rightarrow> (Inl NotFoundError, w1)
           | Some c1 \<Rightarrow>
               (case resolve_ref r to_ref of
                  None \<Rightarrow> (Inl NotFoundError, w1)
                | Some c2 \<Rightarrow> (Inr (diff_commits c1 c2), w1))))"

text \<open>
  Modelled from the spec: \<open>ValidationError\<close> for a mode other than soft, mixed and hard,
  \<open>NotFoundError\<close> for a reference that does not resolve. The pointer of the checked-out
  branch moves to the commit; mixed also resets the staged snapshot, hard the staged
  snapshot and the working tree. The result is the hash of the commit.
\<close>

definition GitManager_rollback :: "GitManager \<Rightarrow> string \<Rightarrow> string \<Rightarrow> string io" where
  "GitManager_rollback m commit_ref mode w =
     (if mode \<noteq> ''soft'' \<and> mode \<noteq> ''mixed'' \<and> mode \<noteq> ''hard'' then (Inl ValidationError, w)
      else (case open_repo m w of
              (Inl e, w1) \<Rightarrow> (Inl e, w1)
            | (Inr (d, r), w1) \<Rightarrow>
                (case resolve_ref r commit_ref of
                   None \<Rightarrow> (Inl NotFoundError, w1)
                 | Some c \<Rightarrow>
                     (let r1 = r\<lparr>repo_branches :=
                                   set_branch (repo_head r) (obj_sha c) (repo_branches r)\<rparr>;
                          r2 = (if mode = ''soft'' then r1 else r1\<lparr>repo_index := obj_tree c\<rparr>);
                          d1 = (if mode = ''hard'' then d\<lparr>dir_worktree := obj_tree c\<rparr> else d)
                      in (Inr (obj_sha c),
                          put_dir (bound_path m) (d1\<lparr>dir_git := Some r2\<rparr>) w1)))))"

text \<open>
  Modelled from the spec: \<open>ConflictError\<close> when the branch exists, \<open>NotFoundError\<close> when
  the starting reference (HEAD when none is given) does not resolve; the new pointer is
  added and nothing else changes.
\<close>

definition GitManager_create_branch :: "GitManager \<Rightarrow> string \<Rightarrow> string option \<Rightarrow> string io" where
  "GitManager_create_branch m branch_name from_ref w =
     (case open_repo m w of
        (Inl e, w1) \<Rightarrow> (Inl e, w1)
      | (Inr (d, r), w1) \<Rightarrow>
          (if map_of (repo_branches r) branch_name \<noteq> None then (Inl ConflictError, w1)
           else (case resolve_ref r (case from_ref of None \<Rightarrow> ''HEAD'' | Some f \<Rightarrow> f) of
                   None \<Rightarrow> (Inl NotFoundError, w1)
                 | Some c \<Rightarrow>
                     (Inr branch_name,
                      put_dir (bound_path m)
                        (d\<lparr>dir_git :=
                             Some (r\<lparr>repo_branches :=
                                       repo_branches r @ [(branch_name, obj_sha c)]\<rparr>)\<rparr>) w1))))"

text \<open>
  Modelled from the spec: \<open>NotFoundError\<close> when the branch does not exist; otherwise the
  branch is checked out and the working tree and the staged snapshot are overwritten with
  the snapshot of its tip, whatever they held.
\<close>

definition GitManager_switch_branch :: "GitManager \<Rightarrow> string \<Rightarrow> string io" where
  "GitManager_switch_branch m branch_name w =
     (case open_repo m w of
        (Inl e, w1) \<Rightarrow> (Inl e, w1)
      | (Inr (d, r), w1) \<Rightarrow>
          (case map_of (repo_branches r) branch_name of
             None \<Rightarrow> (Inl NotFoundError, w1)
           | Some s \<Rightarrow>
               (let t = tree_at r (Some s)
                in (Inr branch_name,
                    put_dir (bound_path m)
                      (\<lparr>dir_worktree = t,
                        dir_git = Some (r\<lparr>repo_head := branch_name, repo_index := t\<rparr>)\<rparr>) w1))))"

text \<open>Modelled from the spec: one entry per local branch, the checked-out one flagged.\<close>

definition branch_info :: "repository \<Rightarrow> string \<times> string \<Rightarrow> BranchInfo" where
  "branch_info r e =
     \<lparr>name = fst e, is_current = (fst e = repo_head r), last_commit_sha = snd e,
      last_commit_message =
        (case find_obj r (snd e) of None \<Rightarrow> [] | Some c \<Rightarrow> obj_message c)\<rparr>"

definition GitManager_list_branches :: "GitManager \<Rightarrow> BranchInfo list io" where
  "GitManager_list_branches m w =
     (case open_repo m w of
        (Inl e, w1) \<Rightarrow> (Inl e, w1)
      | (Inr (d, r), w1) \<Rightarrow> (Inr (map (branch_info r) (repo_branches r)), w1))"

section \<open>The tools (\<^verbatim>\<open>tools.py\<close>)\<close>

text \<open>
  A tool returns a string. Where the string is \<^verbatim>\<open>model_dump_json(indent=2)\<close> of a
  result entity, the serializer is the library's and not the repository's: the model keeps
  the entity that is serialized. An optional argument of a tool is an \<open>option\<close>, \<open>None\<close>
  when the caller leaves it out, and \<open>default_arg\<close> puts the default of the signature in.
\<close>

datatype tool_output =
    Text string
  | StatusJson RepoStatus
  | CommitListJson CommitList
  | CommitDiffJson CommitDiff

definition default_arg :: "'a \<Rightarrow> 'a option \<Rightarrow> 'a" where
  "default_arg d a = (case a of None \<Rightarrow> d | Some x \<Rightarrow> x)"

definition on_success :: "('a \<Rightarrow> 'b) \<Rightarrow> (error + 'a) \<times> world \<Rightarrow> (error + 'b) \<times> world" where
  "on_success f res = (case res of (Inl e, w) \<Rightarrow> (Inl e, w) | (Inr x, w) \<Rightarrow> (Inr (f x), w))"

subsection \<open>Strings\<close>

definition digit_char :: "nat \<Rightarrow> char" where
  "digit_char n = ''0123456789'' ! (n mod 10)"

fun str_nat :: "nat \<Rightarrow> string" where
  "str_nat n = (if n < 10 then [digit_char n] else str_nat (n div 10) @ [digit_char n])"

declare str_nat.simps [simp del]

text \<open>\<^verbatim>\<open>str.lower()\<close> on the ASCII letters; every other character is kept.\<close>

definition lower_char :: "char \<Rightarrow> char" where
  "lower_char c =
     (case map_of (zip ''ABCDEFGHIJKLMNOPQRSTUVWXYZ'' ''abcdefghijklmnopqrstuvwxyz'') c of
        None \<Rightarrow> c
      | Some l \<Rightarrow> l)"

definition lower :: "string \<Rightarrow> string" where
  "lower s = map lower_char s"

text \<open>\<^verbatim>\<open>sub in s\<close> on strings.\<close>

fun contains_str :: "string \<Rightarrow> string \<Rightarrow> bool" where
  "contains_str sub [] = (sub = [])"
| "contains_str sub (c # cs) = (take (length sub) (c # cs) = sub \<or> contains_str sub cs)"

subsection \<open>The default repository path\<close>

text \<open>
  Python's \<^verbatim>\<open>a or b\<close> on optional strings: \<open>None\<close> and the empty string are false.
\<close>

definition truthy :: "string option \<Rightarrow> bool" where
  "truthy a = (a \<noteq> None \<and> a \<noteq> Some [])"

definition py_or :: "string option \<Rightarrow> string option \<Rightarrow> string option" where
  "py_or a b = (if truthy a then a else b)"

definition get_manager :: "string option \<Rightarrow> string option \<Rightarrow> error + GitManager" where
  "get_manager default_repo_path repo_path =
     (let p = py_or repo_path default_repo_path
      in if \<not> truthy p then Inl ValueError
         else (case p of None \<Rightarrow> Inl ValueError | Some s \<Rightarrow> Inr (GitManager s)))"

subsection \<open>The tools\<close>

text \<open>
  Every tool is a closure of \<^verbatim>\<open>register_tools\<close> and so has \<open>default_repo_path\<close> in
  scope; it is the first argument of each.
\<close>

definition initialize_repo :: "string option \<Rightarrow> string \<Rightarrow> bool option \<Rightarrow> tool_output io" where
  "initialize_repo default_repo_path repo_path initial_commit w =
     (let manager = GitManager repo_path
      in on_success Text (GitManager_initialize manager (default_arg True initial_commit) w))"

definition get_repo_status :: "string option \<Rightarrow> string \<Rightarrow> tool_output io" where
  "get_repo_status default_repo_path repo_path w =
     (let manager = GitManager repo_path
      in on_success StatusJson (GitManager_get_status manager w))"

definition commit_all_changes :: "string option \<Rightarrow> string \<Rightarrow> string \<Rightarrow> tool_output io" where
  "commit_all_changes default_repo_path repo_path msg w =
     (let manager = GitManager repo_path
      in if \<not> GitManager_is_initialized manager w then
           (case GitManager_initialize manager False w of
              (Inl e, w1) \<Rightarrow> (Inl e, w1)
            | (Inr u, w1) \<Rightarrow> on_success Text (GitManager_commit_all manager msg w1))
         else on_success Text (GitManager_commit_all manager msg w))"

definition list_commits ::
  "string option \<Rightarrow> string \<Rightarrow> string option \<Rightarrow> int option \<Rightarrow> tool_output io" where
  "list_commits default_repo_path repo_path branch_arg limit_arg w =
     (case get_manager default_repo_path (Some repo_path) of
        Inl e \<Rightarrow> (Inl e, w)
      | Inr manager \<Rightarrow>
          on_success CommitListJson
            (GitManager_list_commits manager (default_arg ''HEAD'' branch_arg)
               (default_arg 50 limit_arg) w))"

definition rollback_to_commit ::
  "string option \<Rightarrow> string \<Rightarrow> string \<Rightarrow> string option \<Rightarrow> tool_output io" where
  "rollback_to_commit default_repo_path repo_path commit_sha mode_arg w =
     (let mode = default_arg ''soft'' mode_arg
      in case get_manager default_repo_path (Some repo_path) of
           Inl e \<Rightarrow> (Inl e, w)
         | Inr manager \<Rightarrow>
             on_success
               (\<lambda>new_head. Text (''Rolled back to '' @ take 7 commit_sha @ ''. New HEAD: ''
                                  @ take 7 new_head @ '' (mode: '' @ mode @ '')''))
               (GitManager_rollback manager commit_sha mode w))"

definition compare_commits :: "string option \<Rightarrow> string \<Rightarrow> string \<Rightarrow> string \<Rightarrow> tool_output io" where
  "compare_commits default_repo_path repo_path from_commit to_commit w =
     (case get_manager default_repo_path (Some repo_path) of
        Inl e \<Rightarrow> (Inl e, w)
      | Inr manager \<Rightarrow>
          on_success CommitDiffJson (GitManager_compare_commits manager from_commit to_commit w))"

definition create_branch ::
  "string option \<Rightarrow> string \<Rightarrow> string \<Rightarrow> string option \<Rightarrow> tool_output io" where
  "create_branch default_repo_path repo_path branch_name from_ref w =
     (case get_manager default_repo_path (Some repo_path) of
        Inl e \<Rightarrow> (Inl e, w)
      | Inr manager \<Rightarrow>
          on_success (\<lambda>n. Text (''Created branch: '' @ n))
            (GitManager_create_branch manager branch_name from_ref w))"

definition switch_branch :: "string option \<Rightarrow> string \<Rightarrow> string \<Rightarrow> tool_output io" where
  "switch_branch default_repo_path repo_path branch_name w =
     (case get_manager default_repo_path (Some repo_path) of
        Inl e \<Rightarrow> (Inl e, w)
      | Inr manager \<Rightarrow>
          on_success (\<lambda>current. Text (''Switched to branch: '' @ current))
            (GitManager_switch_branch manager branch_name w))"

definition branch_line :: "BranchInfo \<Rightarrow> string" where
  "branch_line b =
     (if is_current b then ''* '' else ''  '') @ name b @ '' ('' @ last_commit_sha b @ ''): ''
     @ last_commit_message b"

definition list_branches :: "string option \<Rightarrow> string \<Rightarrow> tool_output io" where
  "list_branches default_repo_path repo_path w =
     (case get_manager default_repo_path (Some repo_path) of
        Inl e \<Rightarrow> (Inl e, w)
      | Inr manager \<Rightarrow>
          on_success (\<lambda>bs. Text (join_str newline (map branch_line bs)))
            (GitManager_list_branches manager w))"

text \<open>The description of the changes that \<^verbatim>\<open>generate_commit_message\<close> builds first.\<close>

definition describe_changes :: "RepoStatus \<Rightarrow> string list" where
  "describe_changes st =
     (if staged_files st \<noteq> [] then
        [''Staged: '' @ join_str '', '' (take 5 (staged_files st))]
        @ (if length (staged_files st) > 5
           then [''  ...and '' @ str_nat (length (staged_files st) - 5) @ '' more'']
           else [])
      else [])
     @ (if modified_files st \<noteq> []
        then [''Modified: '' @ join_str '', '' (take 5 (modified_files st))] else [])
     @ (if untracked_files st \<noteq> []
        then [''New: '' @ join_str '', '' (take 5 (untracked_files st))] else [])"

definition conventional_prefix :: "RepoStatus \<Rightarrow> string" where
  "conventional_prefix st =
     (if untracked_files st \<noteq> [] then ''feat''
      else if list_ex (\<lambda>f. contains_str ''test'' (lower f)) (modified_files st @ staged_files st)
        then ''test''
      else if list_ex (\<lambda>f. contains_str ''readme'' (lower f) \<or> contains_str ''doc'' (lower f))
                (modified_files st @ staged_files st)
        then ''docs''
      else ''chore'')"

definition suggest_message :: "string \<Rightarrow> RepoStatus \<Rightarrow> string" where
  "suggest_message style st =
     (let changes = describe_changes st;
          file_count = length (staged_files st) + length (modified_files st)
                       + length (untracked_files st);
          msg = (if style = ''conventional''
                 then conventional_prefix st @ '': update '' @ str_nat file_count @ '' file(s)''
                 else ''Update '' @ str_nat file_count @ '' file(s)'')
      in ''Suggested message: '' @ msg @ newline @ newline @ ''Changes detected:'' @ newline
         @ join_str newline changes)"

definition generate_commit_message ::
  "string option \<Rightarrow> string \<Rightarrow> string option \<Rightarrow> tool_output io" where
  "generate_commit_message default_repo_path repo_path style_arg w =
     (let style = default_arg ''conventional'' style_arg
      in case get_manager default_repo_path (Some repo_path) of
           Inl e \<Rightarrow> (Inl e, w)
         | Inr manager \<Rightarrow>
             (case GitManager_get_status manager w of
                (Inl e, w1) \<Rightarrow> (Inl e, w1)
              | (Inr st, w1) \<Rightarrow>
                  (if \<not> has_changes st then (Inr (Text ''No changes to describe''), w1)
                   else (Inr (Text (suggest_message style st)), w1))))"

section \<open>Observations and example states\<close>

text \<open>
  What the theorems read off a world: the repository at a path, its commits and its branch
  pointers. The example states all have one directory, \<open>/repo\<close>: without a repository
  (\<open>fresh_world\<close>), with an empty repository (\<open>bootstrapped_world\<close>), after one commit
  (\<open>committed_world\<close>) and after two (\<open>two_commit_world\<close>); the lemmas below reach the
  last two by running the tools.
\<close>

definition repo_at :: "world \<Rightarrow> string \<Rightarrow> repository option" where
  "repo_at w p = (case dirs w p of None \<Rightarrow> None | Some d \<Rightarrow> dir_git d)"

definition commits_at :: "world \<Rightarrow> string \<Rightarrow> commit_obj list" where
  "commits_at w p = (case repo_at w p of None \<Rightarrow> [] | Some r \<Rightarrow> repo_objects r)"

definition branches_at :: "world \<Rightarrow> string \<Rightarrow> (string \<times> string) list" where
  "branches_at w p = (case repo_at w p of None \<Rightarrow> [] | Some r \<Rightarrow> repo_branches r)"

definition example_tree :: tree where
  "example_tree = [(''a.txt'', [''hello''])]"

definition world_with :: "directory \<Rightarrow> world" where
  "world_with d =
     \<lparr>dirs = [''/repo'' \<mapsto> d], engine_user = ''dev'', engine_now = ''2024-01-01T00:00:00''\<rparr>"

definition fresh_world :: world where
  "fresh_world = world_with \<lparr>dir_worktree = example_tree, dir_git = None\<rparr>"

definition bootstrapped_world :: world where
  "bootstrapped_world =
     world_with \<lparr>dir_worktree = example_tree, dir_git = Some empty_repository\<rparr>"

definition first_commit :: commit_obj where
  "first_commit =
     \<lparr>obj_sha = ''0000000000000000000000000000000000000000'', obj_message = ''first'',
      obj_author = ''dev'', obj_time = ''2024-01-01T00:00:00'', obj_parent = None,
      obj_tree = example_tree\<rparr>"

definition committed_repo :: repository where
  "committed_repo =
     \<lparr>repo_objects = [first_commit],
      repo_branches = [(''main'', ''0000000000000000000000000000000000000000'')],
      repo_head = ''main'', repo_index = example_tree\<rparr>"

definition committed_world :: world where
  "committed_world =
     world_with \<lparr>dir_worktree = example_tree, dir_git = Some committed_repo\<rparr>"


definition second_commit :: commit_obj where
  "second_commit =
     \<lparr>obj_sha = ''0000000000000000000000000000000000000001'', obj_message = ''second'',
      obj_author = ''dev'', obj_time = ''2024-01-01T00:00:00'',
      obj_parent = Some ''0000000000000000000000000000000000000000'',
      obj_tree = [(''a.txt'', [''hello'', ''world''])]\<rparr>"

definition two_commit_repo :: repository where
  "two_commit_repo =
     \<lparr>repo_objects = [second_commit, first_commit],
      repo_branches = [(''main'', ''0000000000000000000000000000000000000001'')],
      repo_head = ''main'', repo_index = [(''a.txt'', [''hello'', ''world''])]\<rparr>"

definition two_commit_world :: world where
  "two_commit_world =
     world_with \<lparr>dir_worktree = [(''a.txt'', [''hello'', ''world''])],
                 dir_git = Some two_commit_repo\<rparr>"

text \<open>Two states whose one directory is at the empty path, before and after a commit.\<close>

definition empty_path_world :: world where
  "empty_path_world =
     \<lparr>dirs = [[] \<mapsto> \<lparr>dir_worktree = example_tree, dir_git = None\<rparr>],
      engine_user = ''dev'', engine_now = ''2024-01-01T00:00:00''\<rparr>"

definition empty_path_committed_world :: world where
  "empty_path_committed_world =
     \<lparr>dirs = [[] \<mapsto> \<lparr>dir_worktree = example_tree, dir_git = Some committed_repo\<rparr>],
      engine_user = ''dev'', engine_now = ''2024-01-01T00:00:00''\<rparr>"

section \<open>Running the tools on the example states\<close>

lemma hex_digits_0: "hex_digits k 0 = replicate k CHR ''0''"
  by (induction k) (simp_all add: hex_digit_def replicate_append_same)

lemma mk_sha_0: "mk_sha 0 = ''0000000000000000000000000000000000000000''"
  by (simp add: mk_sha_def hex_digits_0 eval_nat_numeral)

lemma length_hex_digits: "length (hex_digits k n) = k"
  by (induction k arbitrary: n) simp_all

lemma length_mk_sha: "length (mk_sha n) = 40"
  by (simp add: mk_sha_def length_hex_digits)

lemma bootstrap_fresh_world:
  "GitManager_initialize (GitManager ''/repo'') False fresh_world =
     (Inr ''Initialized empty repository at /repo'', bootstrapped_world)"
  by (simp add: GitManager_initialize_def fresh_world_def bootstrapped_world_def world_with_def
      put_dir_def Let_def)

lemma fresh_world_uninitialized:
  "\<not> GitManager_is_initialized (GitManager ''/repo'') fresh_world"
  by (simp add: GitManager_is_initialized_def fresh_world_def world_with_def)

lemma open_bootstrapped_world:
  "open_repo (GitManager ''/repo'') bootstrapped_world =
     (Inr (\<lparr>dir_worktree = example_tree, dir_git = Some empty_repository\<rparr>, empty_repository),
      bootstrapped_world)"
  by (simp add: open_repo_def bootstrapped_world_def world_with_def)

lemma bootstrapped_world_initialized:
  "GitManager_is_initialized (GitManager ''/repo'') bootstrapped_world"
  by (simp add: GitManager_is_initialized_def bootstrapped_world_def world_with_def)

lemma changed_example_tree: "changed_paths [] example_tree = [''a.txt'']"
  by (simp add: changed_paths_def example_tree_def)

lemma commit_bootstrapped_world:
  "GitManager_commit_all (GitManager ''/repo'') ''first'' bootstrapped_world =
     (Inr ''0000000000000000000000000000000000000000'', committed_world)"
proof -
  have "put_dir ''/repo''
          \<lparr>dir_worktree = example_tree,
           dir_git = Some (write_commit bootstrapped_world ''first''
                             (empty_repository\<lparr>repo_index := example_tree\<rparr>))\<rparr>
          bootstrapped_world = committed_world"
    by (simp add: put_dir_def write_commit_def new_commit_def empty_repository_def head_sha_def
        mk_sha_0 bootstrapped_world_def committed_world_def world_with_def committed_repo_def
        first_commit_def Let_def)
  moreover have "obj_sha (new_commit bootstrapped_world ''first''
                   (empty_repository\<lparr>repo_index := example_tree\<rparr>)) =
                 ''0000000000000000000000000000000000000000''"
    by (simp add: new_commit_def empty_repository_def mk_sha_0)
  moreover have "tree_at (empty_repository\<lparr>repo_index := example_tree\<rparr>)
                   (head_sha (empty_repository\<lparr>repo_index := example_tree\<rparr>)) = []"
    by (simp add: tree_at_def head_sha_def empty_repository_def)
  ultimately show ?thesis
    by (simp add: GitManager_commit_all_def bootstrapped_world_initialized
        open_bootstrapped_world changed_example_tree)
qed

lemma commit_fresh_world:
  "commit_all_changes None ''/repo'' ''first'' fresh_world =
     (Inr (Text ''0000000000000000000000000000000000000000''), committed_world)"
  by (simp add: commit_all_changes_def fresh_world_uninitialized bootstrap_fresh_world
      commit_bootstrapped_world on_success_def)

section \<open>The default repository path\<close>

lemma get_manager_nonempty: "p \<noteq> [] \<Longrightarrow> get_manager dflt (Some p) = Inr (GitManager p)"
  by (simp add: get_manager_def py_or_def truthy_def)

lemma get_manager_empty_none: "get_manager None (Some []) = Inl ValueError"
  by (simp add: get_manager_def py_or_def truthy_def)

lemma get_manager_empty_default:
  "d \<noteq> [] \<Longrightarrow> get_manager (Some d) (Some []) = Inr (GitManager d)"
  by (simp add: get_manager_def py_or_def truthy_def)

lemma get_manager_repo: "get_manager dflt (Some ''/repo'') = Inr (GitManager ''/repo'')"
  by (simp add: get_manager_nonempty)

text \<open>
  C9. With an empty \<open>repo_path\<close> and no default path configured, each of the seven tools
  that go through \<open>get_manager\<close> ends with \<open>ValueError\<close>, which is none of the four
  errors of the taxonomy; the error is the one of \<open>get_manager\<close> itself, so no manager
  was constructed, and the world is the one the tool was called in.
\<close>

theorem no_default_path_raises_ValueError:
  "get_manager None (Some []) = Inl ValueError
   \<and> ValueError \<notin> set taxonomy
   \<and> list_commits None [] branch_arg limit_arg w = (Inl ValueError, w)
   \<and> rollback_to_commit None [] commit_sha mode_arg w = (Inl ValueError, w)
   \<and> compare_commits None [] from_commit to_commit w = (Inl ValueError, w)
   \<and> create_branch None [] branch_name from_ref w = (Inl ValueError, w)
   \<and> switch_branch None [] branch_name w = (Inl ValueError, w)
   \<and> list_branches None [] w = (Inl ValueError, w)
   \<and> generate_commit_message None [] style_arg w = (Inl ValueError, w)"
  by (simp add: get_manager_empty_none taxonomy_def list_commits_def rollback_to_commit_def
      compare_commits_def create_branch_def switch_branch_def list_branches_def
      generate_commit_message_def)

section \<open>Comparing a commit with itself\<close>

lemma changed_paths_same: "changed_paths t t = []"
  by (simp add: changed_paths_def)

lemma diff_commits_same:
  "diff_commits c c = \<lparr>from_sha = obj_sha c, to_sha = obj_sha c, files_changed = [],
                        insertions = 0, deletions = 0\<rparr>"
  by (simp add: diff_commits_def changed_paths_same)

lemma open_repo_repo_at:
  "repo_at w (bound_path m) = Some r \<Longrightarrow>
     \<exists>d. open_repo m w = (Inr (d, r), w) \<and> dirs w (bound_path m) = Some d \<and> dir_git d = Some r"
  by (auto simp: repo_at_def open_repo_def split: option.splits)

lemma repo_at_committed_world: "repo_at committed_world ''/repo'' = Some committed_repo"
  by (simp add: repo_at_def committed_world_def world_with_def)

lemma resolve_abbreviated: "resolve_ref committed_repo ''0000'' = Some first_commit"
  by (simp add: resolve_ref_def resolve_branch_def committed_repo_def first_commit_def)

text \<open>
  C5. When the reference \<open>s\<close> resolves to a commit of the repository that the tool works
  on, \<open>compare_commits\<close> of \<open>s\<close> with itself succeeds: the difference has no changed
  file, no insertion and no deletion, and carries the full hash of the commit twice.
\<close>

theorem compare_commits_identical_refs:
  assumes "get_manager default_repo_path (Some repo_path) = Inr manager"
    and "repo_at w (bound_path manager) = Some r"
    and "resolve_ref r s = Some c"
  shows "compare_commits default_repo_path repo_path s s w =
           (Inr (CommitDiffJson \<lparr>from_sha = obj_sha c, to_sha = obj_sha c, files_changed = [],
                                  insertions = 0, deletions = 0\<rparr>), w)"
proof -
  obtain d where "open_repo manager w = (Inr (d, r), w)"
    using open_repo_repo_at [OF assms(2)] by blast
  then show ?thesis
    using assms(1,3)
    by (simp add: compare_commits_def GitManager_compare_commits_def on_success_def
        diff_commits_same)
qed

theorem compare_commits_identical_refs_witness:
  "get_manager None (Some ''/repo'') = Inr (GitManager ''/repo'')
   \<and> repo_at committed_world ''/repo'' = Some committed_repo
   \<and> resolve_ref committed_repo ''0000'' = Some first_commit
   \<and> compare_commits None ''/repo'' ''0000'' ''0000'' committed_world =
       (Inr (CommitDiffJson
               \<lparr>from_sha = ''0000000000000000000000000000000000000000'',
                to_sha = ''0000000000000000000000000000000000000000'',
                files_changed = [], insertions = 0, deletions = 0\<rparr>), committed_world)"
  using compare_commits_identical_refs [of None "''/repo''" "GitManager ''/repo''"
      committed_world committed_repo "''0000''" first_commit]
  by (simp add: get_manager_repo repo_at_committed_world resolve_abbreviated first_commit_def)

section \<open>The style of a generated message\<close>

lemma status_bootstrapped_world:
  "GitManager_get_status (GitManager ''/repo'') bootstrapped_world =
     (Inr \<lparr>is_initialized = True, current_branch = Some ''main'', has_changes = True,
           staged_files = [], modified_files = [], untracked_files = [''a.txt'']\<rparr>,
      bootstrapped_world)"
  by (simp add: GitManager_get_status_def bootstrapped_world_def world_with_def
      empty_repository_def changed_paths_def tree_at_def head_sha_def tree_paths_def
      example_tree_def)

lemma str_nat_1: "str_nat (Suc 0) = ''1''"
  by (simp add: str_nat.simps digit_char_def)

lemma suggest_simple_untracked:
  "style \<noteq> ''conventional'' \<Longrightarrow>
   suggest_message style
     \<lparr>is_initialized = True, current_branch = Some ''main'', has_changes = True,
      staged_files = [], modified_files = [], untracked_files = [''a.txt'']\<rparr> =
   ''Suggested message: Update 1 file(s)'' @ newline @ newline @ ''Changes detected:'' @ newline
   @ ''New: a.txt''"
  by (simp add: suggest_message_def describe_changes_def str_nat_1)

text \<open>
  C6, as the claim states it, fails: in a repository with one untracked file the style
  \<open>fancy\<close>, which is neither \<open>conventional\<close> nor \<open>simple\<close>, gives a suggested message
  and no error.
\<close>

theorem unrecognized_style_counterexample:
  "''fancy'' \<noteq> ''conventional'' \<and> ''fancy'' \<noteq> ''simple''
   \<and> generate_commit_message None ''/repo'' (Some ''fancy'') bootstrapped_world =
       (Inr (Text (''Suggested message: Update 1 file(s)'' @ newline @ newline
                   @ ''Changes detected:'' @ newline @ ''New: a.txt'')), bootstrapped_world)
   \<and> fst (generate_commit_message None ''/repo'' (Some ''fancy'') bootstrapped_world)
       \<noteq> Inl ValidationError"
  by (simp add: generate_commit_message_def default_arg_def get_manager_repo
      status_bootstrapped_world suggest_simple_untracked)

text \<open>
  C6, amended. A style other than \<open>conventional\<close>, recognized or not, is treated as
  \<open>simple\<close>: the tool gives what it gives for \<open>simple\<close> in the same state, and it never
  ends with \<open>ValidationError\<close>.
\<close>

theorem unrecognized_style_is_simple:
  assumes "style \<noteq> ''conventional''"
  shows "generate_commit_message default_repo_path repo_path (Some style) w =
           generate_commit_message default_repo_path repo_path (Some ''simple'') w
         \<and> fst (generate_commit_message default_repo_path repo_path (Some style) w)
             \<noteq> Inl ValidationError"
proof -
  have "suggest_message style st = suggest_message ''simple'' st" for st
    using assms by (simp add: suggest_message_def)
  moreover have "GitManager_get_status m w \<noteq> (Inl ValidationError, w')" for m w'
    by (simp add: GitManager_get_status_def Let_def split: option.splits)
  ultimately show ?thesis
    by (auto simp: generate_commit_message_def default_arg_def get_manager_def Let_def
        split: sum.splits prod.splits option.splits)
qed

theorem unrecognized_style_is_simple_witness:
  "''fancy'' \<noteq> ''conventional''
   \<and> generate_commit_message None ''/repo'' (Some ''fancy'') bootstrapped_world =
       generate_commit_message None ''/repo'' (Some ''simple'') bootstrapped_world
   \<and> fst (generate_commit_message None ''/repo'' (Some ''fancy'') bootstrapped_world)
       \<noteq> Inl ValidationError"
proof -
  have ne: "''fancy'' \<noteq> ''conventional''"
    by simp
  show ?thesis
    using ne unrecognized_style_is_simple [OF ne, of None "''/repo''" bootstrapped_world]
    by blast
qed

section \<open>Lazy initialization\<close>

lemma initialize_succeeds: "\<exists>s. fst (GitManager_initialize m ic w) = Inr s"
  by (simp add: GitManager_initialize_def Let_def split: option.splits)

lemma initialize_initializes:
  "GitManager_is_initialized m (snd (GitManager_initialize m ic w))"
  by (simp add: GitManager_initialize_def GitManager_is_initialized_def put_dir_def Let_def
      split: option.splits)

lemma initialize_keeps_environment:
  "engine_user (snd (GitManager_initialize m ic w)) = engine_user w
   \<and> engine_now (snd (GitManager_initialize m ic w)) = engine_now w"
  by (simp add: GitManager_initialize_def put_dir_def Let_def split: option.splits)

lemma bootstrap_repo:
  "\<not> GitManager_is_initialized (GitManager p) w \<Longrightarrow>
     repo_at (snd (GitManager_initialize (GitManager p) False w)) p = Some empty_repository"
  by (auto simp: GitManager_initialize_def GitManager_is_initialized_def repo_at_def put_dir_def
      Let_def split: option.splits)

lemma commit_all_changes_bootstrap:
  "\<not> GitManager_is_initialized (GitManager p) w \<Longrightarrow>
     commit_all_changes dflt p msg w =
       on_success Text
         (GitManager_commit_all (GitManager p) msg (snd (GitManager_initialize (GitManager p) False w)))"
  using initialize_succeeds [of "GitManager p" False w]
  by (cases "GitManager_initialize (GitManager p) False w")
    (auto simp: commit_all_changes_def Let_def)

lemma commit_all_changes_initialized:
  "GitManager_is_initialized (GitManager p) w \<Longrightarrow>
     commit_all_changes dflt p msg w = on_success Text (GitManager_commit_all (GitManager p) msg w)"
  by (simp add: commit_all_changes_def)

lemma snd_on_success: "snd (on_success f res) = snd res"
  by (simp add: on_success_def split: prod.splits sum.splits)

lemma fst_on_success:
  "fst (on_success f res) = (case fst res of Inl e \<Rightarrow> Inl e | Inr x \<Rightarrow> Inr (f x))"
  by (simp add: on_success_def split: prod.splits sum.splits)

text \<open>What \<open>commit_all\<close> does in a repository that is there already.\<close>

lemma commit_all_in_repo:
  assumes "dirs w (bound_path m) = Some d" and "dir_git d = Some r"
  shows "GitManager_commit_all m msg w =
     (if msg = [] then (Inl ValidationError, w)
      else if changed_paths (tree_at r (head_sha r)) (dir_worktree d) = [] then
        (Inr no_changes_message,
         put_dir (bound_path m) (d\<lparr>dir_git := Some (r\<lparr>repo_index := dir_worktree d\<rparr>)\<rparr>) w)
      else
        (Inr (obj_sha (new_commit w msg (r\<lparr>repo_index := dir_worktree d\<rparr>))),
         put_dir (bound_path m)
           (d\<lparr>dir_git := Some (write_commit w msg (r\<lparr>repo_index := dir_worktree d\<rparr>))\<rparr>) w))"
proof -
  have "tree_at (r\<lparr>repo_index := t\<rparr>) (head_sha (r\<lparr>repo_index := t\<rparr>)) = tree_at r (head_sha r)"
    for t
    by (simp add: tree_at_def head_sha_def find_obj_def split: option.splits)
  then show ?thesis
    using assms
    by (simp add: GitManager_commit_all_def GitManager_is_initialized_def open_repo_def Let_def)
qed

lemma initialized_cases:
  "GitManager_is_initialized m w \<Longrightarrow>
     \<exists>d r. dirs w (bound_path m) = Some d \<and> dir_git d = Some r"
  by (auto simp: GitManager_is_initialized_def split: option.splits)

lemma commit_all_keeps_initialized:
  assumes "GitManager_is_initialized m w"
  shows "GitManager_is_initialized m (snd (GitManager_commit_all m msg w))"
proof -
  obtain d r where dr: "dirs w (bound_path m) = Some d" "dir_git d = Some r"
    using initialized_cases [OF assms] by blast
  show ?thesis
    using assms
    by (simp add: commit_all_in_repo [OF dr] GitManager_is_initialized_def put_dir_def)
qed

lemma get_status_reads_only: "snd (GitManager_get_status m w) = w"
  by (simp add: GitManager_get_status_def Let_def split: option.splits)

lemma open_repo_reads_only: "snd (open_repo m w) = w"
  by (simp add: open_repo_def split: option.splits)

lemma open_repo_world: "open_repo m w = (res, w') \<Longrightarrow> w' = w"
  using open_repo_reads_only [of m w] by simp

lemma list_commits_reads_only: "snd (GitManager_list_commits m b lim w) = w"
  by (auto simp: GitManager_list_commits_def split: prod.splits sum.splits option.splits
      dest: open_repo_world)

lemma compare_commits_reads_only: "snd (GitManager_compare_commits m a b w) = w"
  by (auto simp: GitManager_compare_commits_def split: prod.splits sum.splits option.splits
      dest: open_repo_world)

lemma list_branches_reads_only: "snd (GitManager_list_branches m w) = w"
  by (auto simp: GitManager_list_branches_def split: prod.splits sum.splits dest: open_repo_world)

lemma committed_world_initialized:
  "GitManager_is_initialized (GitManager ''/repo'') committed_world"
  by (simp add: GitManager_is_initialized_def committed_world_def world_with_def)

text \<open>
  C2. On a path that holds no repository, \<open>commit_all_changes\<close> initializes first: the
  commit runs in the world that \<open>initialize\<close> (without initial commit) leaves, that world
  holds a repository, and so does the world after the tool, also when the commit itself
  fails. The read-only \<open>get_repo_status\<close> returns the world as it was, so the path still
  holds no repository; \<open>list_commits\<close>, \<open>compare_commits\<close>, \<open>list_branches\<close> and
  \<open>generate_commit_message\<close> leave the world as it was, too.
\<close>

theorem lazy_initialization_only_when_mutating:
  assumes "\<not> GitManager_is_initialized (GitManager repo_path) w"
  shows "commit_all_changes dflt repo_path msg w =
           on_success Text
             (GitManager_commit_all (GitManager repo_path) msg
                (snd (GitManager_initialize (GitManager repo_path) False w)))
         \<and> GitManager_is_initialized (GitManager repo_path)
             (snd (GitManager_initialize (GitManager repo_path) False w))
         \<and> GitManager_is_initialized (GitManager repo_path)
             (snd (commit_all_changes dflt repo_path msg w))
         \<and> snd (get_repo_status dflt repo_path w) = w
         \<and> \<not> GitManager_is_initialized (GitManager repo_path)
               (snd (get_repo_status dflt repo_path w))
         \<and> snd (list_commits dflt repo_path branch_arg limit_arg w) = w
         \<and> snd (compare_commits dflt repo_path from_commit to_commit w) = w
         \<and> snd (list_branches dflt repo_path w) = w
         \<and> snd (generate_commit_message dflt repo_path style_arg w) = w"
proof -
  have status: "snd (get_repo_status dflt repo_path w) = w"
    by (simp add: get_repo_status_def snd_on_success get_status_reads_only)
  have "snd (generate_commit_message dflt repo_path style_arg w) = w"
    using get_status_reads_only
    by (auto simp: generate_commit_message_def Let_def split: sum.splits prod.splits)
      (metis snd_conv)+
  moreover have "snd (list_commits dflt repo_path branch_arg limit_arg w) = w"
    by (simp add: list_commits_def snd_on_success list_commits_reads_only split: sum.splits)
  moreover have "snd (compare_commits dflt repo_path from_commit to_commit w) = w"
    by (simp add: compare_commits_def snd_on_success compare_commits_reads_only
        split: sum.splits)
  moreover have "snd (list_branches dflt repo_path w) = w"
    by (simp add: list_branches_def snd_on_success list_branches_reads_only split: sum.splits)
  moreover have "GitManager_is_initialized (GitManager repo_path)
                   (snd (commit_all_changes dflt repo_path msg w))"
    by (simp add: commit_all_changes_bootstrap [OF assms] snd_on_success
        commit_all_keeps_initialized initialize_initializes)
  ultimately show ?thesis
    using assms status
    by (simp add: commit_all_changes_bootstrap initialize_initializes)
qed

theorem lazy_initialization_only_when_mutating_witness:
  "\<not> GitManager_is_initialized (GitManager ''/repo'') fresh_world
   \<and> commit_all_changes None ''/repo'' ''first'' fresh_world =
       (Inr (Text ''0000000000000000000000000000000000000000''), committed_world)
   \<and> GitManager_is_initialized (GitManager ''/repo'')
       (snd (commit_all_changes None ''/repo'' ''first'' fresh_world))
   \<and> snd (get_repo_status None ''/repo'' fresh_world) = fresh_world
   \<and> \<not> GitManager_is_initialized (GitManager ''/repo'')
         (snd (get_repo_status None ''/repo'' fresh_world))"
  using lazy_initialization_only_when_mutating
      [OF fresh_world_uninitialized, of None "''first''" None None "[]" "[]" None]
    fresh_world_uninitialized commit_fresh_world
  by blast

section \<open>The commits of one call\<close>

lemma commits_at_put_dir:
  "commits_at (put_dir p d w) p = (case dir_git d of None \<Rightarrow> [] | Some r \<Rightarrow> repo_objects r)"
  by (simp add: commits_at_def repo_at_def put_dir_def)

lemma branches_at_put_dir:
  "branches_at (put_dir p d w) p = (case dir_git d of None \<Rightarrow> [] | Some r \<Rightarrow> repo_branches r)"
  by (simp add: branches_at_def repo_at_def put_dir_def)

lemma repo_at_cases:
  "repo_at w p = Some r \<Longrightarrow> \<exists>d. dirs w p = Some d \<and> dir_git d = Some r"
  by (auto simp: repo_at_def split: option.splits)

lemma commit_all_single_commit:
  assumes "repo_at w (bound_path m) = Some r"
  shows "commits_at (snd (GitManager_commit_all m msg w)) (bound_path m) = repo_objects r
         \<or> (\<exists>c. commits_at (snd (GitManager_commit_all m msg w)) (bound_path m)
                   = c # repo_objects r \<and> obj_message c = msg)"
proof -
  obtain d where dr: "dirs w (bound_path m) = Some d" "dir_git d = Some r"
    using repo_at_cases [OF assms] by blast
  have "commits_at w (bound_path m) = repo_objects r"
    using assms by (simp add: commits_at_def)
  then show ?thesis
    by (simp add: commit_all_in_repo [OF dr] commits_at_put_dir write_commit_def new_commit_def
        Let_def)
qed

lemma initialize_with_commit_fresh_world:
  "commits_at (snd (GitManager_initialize (GitManager ''/repo'') True fresh_world)) ''/repo''
     \<noteq> []"
  by (simp add: GitManager_initialize_def fresh_world_def world_with_def example_tree_def
      commits_at_put_dir write_commit_def Let_def)

lemma commits_at_committed_world: "commits_at committed_world ''/repo'' = [first_commit]"
  by (simp add: commits_at_def repo_at_def committed_world_def world_with_def committed_repo_def)

lemma uninitialized_no_commits:
  "\<not> GitManager_is_initialized (GitManager p) w \<Longrightarrow> commits_at w p = []"
  by (auto simp: GitManager_is_initialized_def commits_at_def repo_at_def split: option.splits)

text \<open>
  C10. On a path that holds no repository, \<open>commit_all_changes\<close> initializes with
  \<open>initial_commit = False\<close>, and the repository it then commits in has no commit. On
  any path, the commits of the repository after the call are the ones from before, or the
  ones from before and one new commit, which carries the caller's message.
\<close>

theorem bootstrap_creates_no_commit:
  "(\<not> GitManager_is_initialized (GitManager repo_path) w \<longrightarrow>
      commit_all_changes dflt repo_path msg w =
        on_success Text
          (GitManager_commit_all (GitManager repo_path) msg
             (snd (GitManager_initialize (GitManager repo_path) False w)))
      \<and> commits_at (snd (GitManager_initialize (GitManager repo_path) False w)) repo_path = [])
   \<and> (commits_at (snd (commit_all_changes dflt repo_path msg w)) repo_path
         = commits_at w repo_path
      \<or> (\<exists>c. commits_at (snd (commit_all_changes dflt repo_path msg w)) repo_path
                = c # commits_at w repo_path
              \<and> obj_message c = msg))"
proof (cases "GitManager_is_initialized (GitManager repo_path) w")
  case True
  then obtain d r where "dirs w repo_path = Some d" "dir_git d = Some r"
    using initialized_cases [of "GitManager repo_path" w] by auto
  then have r: "repo_at w (bound_path (GitManager repo_path)) = Some r"
    by (simp add: repo_at_def)
  then have "commits_at w repo_path = repo_objects r"
    by (simp add: commits_at_def)
  then show ?thesis
    using True commit_all_single_commit [OF r, of msg]
    by (simp add: commit_all_changes_initialized snd_on_success)
next
  case False
  let ?w1 = "snd (GitManager_initialize (GitManager repo_path) False w)"
  have boot: "repo_at ?w1 (bound_path (GitManager repo_path)) = Some empty_repository"
    using bootstrap_repo [OF False] by simp
  have none: "commits_at ?w1 repo_path = []"
    using boot by (simp add: commits_at_def empty_repository_def)
  have "repo_objects empty_repository = []"
    by (simp add: empty_repository_def)
  then show ?thesis
    using False commit_all_single_commit [OF boot, of msg] none
    by (simp add: commit_all_changes_bootstrap [OF False] snd_on_success
        uninitialized_no_commits)
qed

theorem bootstrap_creates_no_commit_witness:
  "\<not> GitManager_is_initialized (GitManager ''/repo'') fresh_world
   \<and> commits_at (snd (GitManager_initialize (GitManager ''/repo'') False fresh_world)) ''/repo''
       = []
   \<and> commits_at (snd (GitManager_initialize (GitManager ''/repo'') True fresh_world)) ''/repo''
       \<noteq> []
   \<and> commits_at (snd (commit_all_changes None ''/repo'' ''first'' fresh_world)) ''/repo''
       = [first_commit]
   \<and> obj_message first_commit = ''first''"
proof -
  have "commits_at (snd (GitManager_initialize (GitManager ''/repo'') False fresh_world)) ''/repo''
          = []"
    using bootstrap_creates_no_commit [of "''/repo''" fresh_world None "''first''"]
      fresh_world_uninitialized
    by blast
  moreover have "commits_at (snd (commit_all_changes None ''/repo'' ''first'' fresh_world))
                   ''/repo'' = [first_commit]"
    by (simp add: commit_fresh_world commits_at_committed_world)
  moreover have "obj_message first_commit = ''first''"
    by (simp add: first_commit_def)
  ultimately show ?thesis
    using fresh_world_uninitialized initialize_with_commit_fresh_world by blast
qed

section \<open>Committing a clean working tree\<close>

lemma changed_paths_empty_iff: "changed_paths a b = [] \<longleftrightarrow> map_of a = map_of b"
proof
  assume e: "changed_paths a b = []"
  show "map_of a = map_of b"
  proof
    fix p
    show "map_of a p = map_of b p"
    proof (cases "p \<in> set (map fst a) \<union> set (map fst b)")
      case True
      with e show ?thesis
        by (auto simp: changed_paths_def filter_empty_conv)
    next
      case False
      then have "map_of a p = None" and "map_of b p = None"
        by (simp_all add: map_of_eq_None_iff)
      then show ?thesis
        by simp
    qed
  qed
next
  assume "map_of a = map_of b"
  then show "changed_paths a b = []"
    by (simp add: changed_paths_def)
qed

lemma clean_status_trees:
  assumes dr: "dirs w (bound_path m) = Some d" "dir_git d = Some r"
    and st: "fst (GitManager_get_status m w) = Inr st" "\<not> has_changes st"
  shows "changed_paths (tree_at r (head_sha r)) (dir_worktree d) = []"
proof -
  let ?S = "changed_paths (tree_at r (head_sha r)) (repo_index r)"
  let ?M = "filter (\<lambda>p. map_of (dir_worktree d) p \<noteq> map_of (repo_index r) p)
              (tree_paths (repo_index r))"
  let ?U = "filter (\<lambda>p. map_of (repo_index r) p = None) (tree_paths (dir_worktree d))"
  from dr st(1) have "has_changes st = (?S \<noteq> [] \<or> ?M \<noteq> [] \<or> ?U \<noteq> [])"
    by (auto simp: GitManager_get_status_def Let_def)
  with st(2) have staged: "?S = []" and m: "?M = []" and u: "?U = []"
    by simp_all
  from m have tracked: "\<forall>p \<in> set (map fst (repo_index r)).
                          map_of (dir_worktree d) p = map_of (repo_index r) p"
    by (simp add: filter_empty_conv tree_paths_def)
  from u have known: "\<forall>p \<in> set (map fst (dir_worktree d)). map_of (repo_index r) p \<noteq> None"
    by (simp add: filter_empty_conv tree_paths_def)
  have "map_of (dir_worktree d) p = map_of (repo_index r) p" for p
  proof (cases "p \<in> set (map fst (repo_index r))")
    case True
    with tracked show ?thesis
      by blast
  next
    case False
    then have i: "map_of (repo_index r) p = None"
      by (simp add: map_of_eq_None_iff)
    with known have "p \<notin> set (map fst (dir_worktree d))"
      by blast
    then have "map_of (dir_worktree d) p = None"
      by (simp add: map_of_eq_None_iff)
    with i show ?thesis
      by simp
  qed
  then have "map_of (dir_worktree d) = map_of (repo_index r)"
    by (rule ext)
  with staged show ?thesis
    by (simp add: changed_paths_empty_iff)
qed

lemma status_initialized:
  "fst (GitManager_get_status m w) = Inr st \<Longrightarrow> is_initialized st \<Longrightarrow>
     GitManager_is_initialized m w"
  by (auto simp: GitManager_get_status_def GitManager_is_initialized_def Let_def
      split: option.splits)

lemma length_no_changes_message: "length no_changes_message = 20"
  by (simp add: no_changes_message_def)

lemma status_committed_world:
  "GitManager_get_status (GitManager ''/repo'') committed_world =
     (Inr \<lparr>is_initialized = True, current_branch = Some ''main'', has_changes = False,
           staged_files = [], modified_files = [], untracked_files = []\<rparr>, committed_world)"
  by (simp add: GitManager_get_status_def committed_world_def world_with_def committed_repo_def
      first_commit_def changed_paths_def tree_at_def head_sha_def find_obj_def tree_paths_def
      example_tree_def)

text \<open>
  C3. In an initialized repository whose status reports no changes (nothing staged,
  modified or untracked), \<open>commit_all_changes\<close> with a non-empty message returns the
  sentinel message; the commits and the branch pointers of the repository are the ones
  from before the call, and the sentinel is no 40-character hash.
\<close>

theorem commit_all_clean_tree_no_commit:
  assumes "msg \<noteq> []"
    and "fst (GitManager_get_status (GitManager repo_path) w) = Inr st"
    and "is_initialized st"
    and "\<not> has_changes st"
  shows "fst (commit_all_changes dflt repo_path msg w) = Inr (Text no_changes_message)
         \<and> commits_at (snd (commit_all_changes dflt repo_path msg w)) repo_path
             = commits_at w repo_path
         \<and> branches_at (snd (commit_all_changes dflt repo_path msg w)) repo_path
             = branches_at w repo_path
         \<and> length no_changes_message \<noteq> 40
         \<and> no_changes_message \<noteq> mk_sha n"
proof -
  have init: "GitManager_is_initialized (GitManager repo_path) w"
    using assms(2,3) by (rule status_initialized)
  then obtain d r where dr: "dirs w (bound_path (GitManager repo_path)) = Some d"
      "dir_git d = Some r"
    using initialized_cases by blast
  have clean: "changed_paths (tree_at r (head_sha r)) (dir_worktree d) = []"
    using clean_status_trees [OF dr assms(2,4)] .
  have before: "commits_at w repo_path = repo_objects r" "branches_at w repo_path = repo_branches r"
    using dr by (simp_all add: commits_at_def branches_at_def repo_at_def)
  have "length (mk_sha n) = 40"
    by (rule length_mk_sha)
  then have "no_changes_message \<noteq> mk_sha n"
    using length_no_changes_message by auto
  then show ?thesis
    using assms(1) clean before
    by (simp add: commit_all_changes_initialized [OF init] commit_all_in_repo [OF dr]
        on_success_def commits_at_put_dir branches_at_put_dir length_no_changes_message)
qed

theorem commit_all_clean_tree_no_commit_witness:
  "''second'' \<noteq> []
   \<and> fst (GitManager_get_status (GitManager ''/repo'') committed_world) =
       Inr \<lparr>is_initialized = True, current_branch = Some ''main'', has_changes = False,
            staged_files = [], modified_files = [], untracked_files = []\<rparr>
   \<and> fst (commit_all_changes None ''/repo'' ''second'' committed_world)
       = Inr (Text ''No changes to commit'')
   \<and> commits_at (snd (commit_all_changes None ''/repo'' ''second'' committed_world)) ''/repo''
       = [first_commit]"
  using commit_all_clean_tree_no_commit [of "''second''" "''/repo''" committed_world
      "\<lparr>is_initialized = True, current_branch = Some ''main'', has_changes = False,
        staged_files = [], modified_files = [], untracked_files = []\<rparr>" None 0]
  by (simp add: status_committed_world commits_at_committed_world no_changes_message_def)

section \<open>Commit, then history\<close>

lemma map_of_set_branch: "map_of (set_branch b s bs) b = Some s"
  by (induction bs) auto

lemma head_sha_write_commit:
  "head_sha (write_commit w msg r) = Some (obj_sha (new_commit w msg r))"
  by (simp add: write_commit_def head_sha_def Let_def map_of_set_branch)

lemma list_after_commit:
  "GitManager_list_commits m ''HEAD'' 1
     (put_dir (bound_path m) (d\<lparr>dir_git := Some (write_commit w0 msg r)\<rparr>) w) =
   (Inr \<lparr>branch = ''HEAD'', commits = [to_record (new_commit w0 msg r)]\<rparr>,
    put_dir (bound_path m) (d\<lparr>dir_git := Some (write_commit w0 msg r)\<rparr>) w)"
proof -
  have "repo_objects (write_commit w0 msg r) = new_commit w0 msg r # repo_objects r"
    by (simp add: write_commit_def Let_def)
  then show ?thesis
    using head_sha_write_commit [of w0 msg r]
    by (simp add: GitManager_list_commits_def open_repo_def put_dir_def resolve_branch_def)
qed

text \<open>
  On a non-empty path the round trip holds: when \<open>commit_all_changes\<close> returns a
  40-character hash \<open>s\<close>, \<open>list_commits\<close> on the same path with the default branch and
  limit 1 returns one record, with hash \<open>s\<close> and the message of the commit.
\<close>

theorem commit_then_list_round_trip:
  assumes "repo_path \<noteq> []"
    and "commit_all_changes dflt repo_path msg w = (Inr (Text s), w')"
    and "length s = 40"
  shows "list_commits dflt repo_path None (Some 1) w' =
           (Inr (CommitListJson
                   \<lparr>branch = ''HEAD'',
                    commits = [\<lparr>sha = s, message = msg, author = engine_user w,
                                timestamp = engine_now w\<rparr>]\<rparr>), w')"
proof -
  let ?m = "GitManager repo_path"
  define w0 where "w0 = (if GitManager_is_initialized ?m w then w
                          else snd (GitManager_initialize ?m False w))"
  have tool: "commit_all_changes dflt repo_path msg w = on_success Text (GitManager_commit_all ?m msg w0)"
    by (simp add: w0_def commit_all_changes_initialized commit_all_changes_bootstrap)
  have env: "engine_user w0 = engine_user w" "engine_now w0 = engine_now w"
    by (simp_all add: w0_def initialize_keeps_environment)
  have "GitManager_is_initialized ?m w0"
    by (simp add: w0_def initialize_initializes)
  then obtain d r where dr: "dirs w0 (bound_path ?m) = Some d" "dir_git d = Some r"
    using initialized_cases by blast
  let ?r1 = "r\<lparr>repo_index := dir_worktree d\<rparr>"
  have "s \<noteq> no_changes_message"
    using assms(3) length_no_changes_message by auto
  with assms(2) have s: "s = obj_sha (new_commit w0 msg ?r1)"
    and w': "w' = put_dir (bound_path ?m) (d\<lparr>dir_git := Some (write_commit w0 msg ?r1)\<rparr>) w0"
    by (auto simp: tool commit_all_in_repo [OF dr] on_success_def split: if_splits)
  have "to_record (new_commit w0 msg ?r1) =
          \<lparr>sha = s, message = msg, author = engine_user w, timestamp = engine_now w\<rparr>"
    by (simp add: to_record_def s new_commit_def env)
  then show ?thesis
    using list_after_commit [where m = ?m and d = d and ?w0.0 = w0 and msg = msg and r = ?r1 and w = w0]
    by (simp add: list_commits_def get_manager_nonempty [OF assms(1)] default_arg_def
        on_success_def w')
qed

theorem commit_then_list_round_trip_witness:
  "''/repo'' \<noteq> []
   \<and> commit_all_changes None ''/repo'' ''first'' fresh_world =
       (Inr (Text ''0000000000000000000000000000000000000000''), committed_world)
   \<and> length ''0000000000000000000000000000000000000000'' = 40
   \<and> list_commits None ''/repo'' None (Some 1) committed_world =
       (Inr (CommitListJson
               \<lparr>branch = ''HEAD'',
                commits = [\<lparr>sha = ''0000000000000000000000000000000000000000'',
                            message = ''first'', author = ''dev'',
                            timestamp = ''2024-01-01T00:00:00''\<rparr>]\<rparr>), committed_world)"
proof -
  have p: "''/repo'' \<noteq> []"
    by simp
  have l: "length ''0000000000000000000000000000000000000000'' = 40"
    by simp
  show ?thesis
    using commit_then_list_round_trip [OF p commit_fresh_world l] p l commit_fresh_world
    by (simp add: fresh_world_def world_with_def)
qed

lemma commit_empty_path_world:
  "commit_all_changes dflt [] ''first'' empty_path_world =
     (Inr (Text ''0000000000000000000000000000000000000000''), empty_path_committed_world)"
proof -
  let ?d = "\<lparr>dir_worktree = example_tree, dir_git = Some empty_repository\<rparr>"
  let ?w1 = "\<lparr>dirs = [[] \<mapsto> ?d], engine_user = ''dev'',
              engine_now = ''2024-01-01T00:00:00''\<rparr>"
  have uninit: "\<not> GitManager_is_initialized (GitManager []) empty_path_world"
    by (simp add: GitManager_is_initialized_def empty_path_world_def)
  have boot: "snd (GitManager_initialize (GitManager []) False empty_path_world) = ?w1"
    by (simp add: GitManager_initialize_def empty_path_world_def put_dir_def Let_def)
  have dr: "dirs ?w1 (bound_path (GitManager [])) = Some ?d" "dir_git ?d = Some empty_repository"
    by simp_all
  have changed: "changed_paths (tree_at empty_repository (head_sha empty_repository))
                   (dir_worktree ?d) \<noteq> []"
    by (simp add: changed_paths_def tree_at_def head_sha_def empty_repository_def
        example_tree_def)
  have new: "new_commit ?w1 ''first'' (empty_repository\<lparr>repo_index := dir_worktree ?d\<rparr>)
               = first_commit"
    by (simp add: new_commit_def empty_repository_def mk_sha_0 head_sha_def first_commit_def)
  have "write_commit ?w1 ''first'' (empty_repository\<lparr>repo_index := dir_worktree ?d\<rparr>)
          = committed_repo"
    unfolding write_commit_def new Let_def
    by (simp add: empty_repository_def committed_repo_def first_commit_def)
  then have "put_dir []
               (?d\<lparr>dir_git := Some (write_commit ?w1 ''first''
                                      (empty_repository\<lparr>repo_index := dir_worktree ?d\<rparr>))\<rparr>)
               ?w1 = empty_path_committed_world"
    by (simp add: put_dir_def empty_path_committed_world_def)
  then show ?thesis
    using changed new
    by (simp add: commit_all_changes_bootstrap [OF uninit] boot commit_all_in_repo [OF dr]
        on_success_def first_commit_def)
qed

lemma list_empty_path_no_default:
  "list_commits None [] None (Some 1) empty_path_committed_world =
     (Inl ValueError, empty_path_committed_world)"
  by (simp add: list_commits_def get_manager_empty_none)

lemma list_empty_path_default:
  "list_commits (Some ''/repo'') [] None (Some 1) empty_path_committed_world =
     (Inl NotFoundError, empty_path_committed_world)"
  by (simp add: list_commits_def get_manager_empty_default GitManager_list_commits_def
      open_repo_def empty_path_committed_world_def on_success_def default_arg_def)

text \<open>
  C4 does not hold of the code at the empty path. There \<open>commit_all_changes\<close> commits in
  the directory at the empty path and returns a 40-character hash, while \<open>list_commits\<close>
  goes through \<open>get_manager\<close>: without a default path it ends with \<open>ValueError\<close>, and
  with the default \<open>/repo\<close> it looks for the history of \<open>/repo\<close>, which does not exist
  here. Neither returns the record of the commit.
\<close>

theorem round_trip_fails_at_empty_path:
  "commit_all_changes None [] ''first'' empty_path_world =
     (Inr (Text ''0000000000000000000000000000000000000000''), empty_path_committed_world)
   \<and> length ''0000000000000000000000000000000000000000'' = 40
   \<and> list_commits None [] None (Some 1) empty_path_committed_world =
       (Inl ValueError, empty_path_committed_world)
   \<and> commit_all_changes (Some ''/repo'') [] ''first'' empty_path_world =
       (Inr (Text ''0000000000000000000000000000000000000000''), empty_path_committed_world)
   \<and> list_commits (Some ''/repo'') [] None (Some 1) empty_path_committed_world =
       (Inl NotFoundError, empty_path_committed_world)"
  using commit_empty_path_world list_empty_path_no_default list_empty_path_default
  by simp

section \<open>A second commit\<close>

lemma hex_digits_1: "hex_digits (Suc k) (Suc 0) = replicate k CHR ''0'' @ ''1''"
  by (simp add: hex_digits_0 hex_digit_def)

lemma mk_sha_1: "mk_sha (Suc 0) = ''0000000000000000000000000000000000000001''"
proof -
  have e: "(40::nat) = Suc 39"
    by simp
  show ?thesis
    unfolding mk_sha_def e hex_digits_1 by (simp add: eval_nat_numeral)
qed

lemma commit_edited_world:
  "commit_all_changes None ''/repo'' ''second''
     (world_with \<lparr>dir_worktree = [(''a.txt'', [''hello'', ''world''])],
                  dir_git = Some committed_repo\<rparr>) =
     (Inr (Text ''0000000000000000000000000000000000000001''), two_commit_world)"
proof -
  let ?d = "\<lparr>dir_worktree = [(''a.txt'', [''hello'', ''world''])], dir_git = Some committed_repo\<rparr>"
  have dr: "dirs (world_with ?d) (bound_path (GitManager ''/repo'')) = Some ?d"
    "dir_git ?d = Some committed_repo"
    by (simp_all add: world_with_def)
  have init: "GitManager_is_initialized (GitManager ''/repo'') (world_with ?d)"
    by (simp add: GitManager_is_initialized_def world_with_def)
  have changed: "changed_paths (tree_at committed_repo (head_sha committed_repo))
                   (dir_worktree ?d) \<noteq> []"
    by (simp add: changed_paths_def tree_at_def head_sha_def find_obj_def committed_repo_def
        first_commit_def example_tree_def)
  have new: "new_commit (world_with ?d) ''second''
               (committed_repo\<lparr>repo_index := dir_worktree ?d\<rparr>) = second_commit"
    by (simp add: new_commit_def committed_repo_def mk_sha_1 head_sha_def world_with_def
        second_commit_def)
  have "write_commit (world_with ?d) ''second''
          (committed_repo\<lparr>repo_index := dir_worktree ?d\<rparr>) = two_commit_repo"
    unfolding write_commit_def new Let_def
    by (simp add: committed_repo_def two_commit_repo_def second_commit_def)
  then have "put_dir ''/repo''
               (?d\<lparr>dir_git := Some (write_commit (world_with ?d) ''second''
                                      (committed_repo\<lparr>repo_index := dir_worktree ?d\<rparr>))\<rparr>)
               (world_with ?d) = two_commit_world"
    by (simp add: put_dir_def world_with_def two_commit_world_def)
  then show ?thesis
    using changed new
    by (simp add: commit_all_changes_initialized [OF init] commit_all_in_repo [OF dr]
        on_success_def second_commit_def)
qed

section \<open>Rolling back\<close>

lemma rollback_success:
  assumes "GitManager_rollback m ref mode w = (Inr h, w')"
  shows "\<exists>r c r'. repo_at w (bound_path m) = Some r \<and> resolve_ref r ref = Some c
           \<and> h = obj_sha c \<and> repo_at w' (bound_path m) = Some r'
           \<and> head_sha r' = Some (obj_sha c)
           \<and> (mode = ''soft'' \<or> mode = ''mixed'' \<or> mode = ''hard'')"
  using assms
  by (auto simp: GitManager_rollback_def open_repo_def repo_at_def put_dir_def head_sha_def
      map_of_set_branch Let_def split: if_splits option.splits)

lemma pair_of_fst: "fst x = a \<Longrightarrow> x = (a, snd x)"
  by auto

lemma rollback_two_commit_world:
  "fst (rollback_to_commit None ''/repo'' ''0000000000000000000000000000000000000000'' None
          two_commit_world) =
     Inr (Text ''Rolled back to 0000000. New HEAD: 0000000 (mode: soft)'')"
  by (simp add: rollback_to_commit_def get_manager_repo GitManager_rollback_def open_repo_def
      two_commit_world_def world_with_def resolve_ref_def resolve_branch_def two_commit_repo_def
      second_commit_def first_commit_def default_arg_def on_success_def Let_def)

text \<open>
  C7. The mode of \<open>rollback_to_commit\<close> defaults to \<open>soft\<close>. When the tool succeeds, the
  requested reference resolved to a commit of the repository, HEAD of the repository after
  the call is that commit, the mode is one of the three reset modes, and the confirmation
  is made of the first seven characters of the requested reference, the first seven
  characters of the new HEAD hash, and the mode.
\<close>

theorem rollback_to_commit_confirmation:
  assumes "rollback_to_commit dflt repo_path commit_sha mode_arg w = (Inr out, w')"
  shows "rollback_to_commit dflt repo_path commit_sha None w =
           rollback_to_commit dflt repo_path commit_sha (Some ''soft'') w
         \<and> (\<exists>manager r c r'.
               get_manager dflt (Some repo_path) = Inr manager
               \<and> repo_at w (bound_path manager) = Some r
               \<and> resolve_ref r commit_sha = Some c
               \<and> repo_at w' (bound_path manager) = Some r'
               \<and> head_sha r' = Some (obj_sha c)
               \<and> (default_arg ''soft'' mode_arg = ''soft''
                  \<or> default_arg ''soft'' mode_arg = ''mixed''
                  \<or> default_arg ''soft'' mode_arg = ''hard'')
               \<and> out = Text (''Rolled back to '' @ take 7 commit_sha @ ''. New HEAD: ''
                             @ take 7 (obj_sha c) @ '' (mode: '' @ default_arg ''soft'' mode_arg
                             @ '')''))"
proof -
  have dflt_mode: "rollback_to_commit dflt repo_path commit_sha None w =
                     rollback_to_commit dflt repo_path commit_sha (Some ''soft'') w"
    by (simp add: rollback_to_commit_def default_arg_def)
  let ?mode = "default_arg ''soft'' mode_arg"
  from assms obtain manager where m: "get_manager dflt (Some repo_path) = Inr manager"
    by (auto simp: rollback_to_commit_def Let_def split: sum.splits)
  with assms obtain h where h: "GitManager_rollback manager commit_sha ?mode w = (Inr h, w')"
    and out: "out = Text (''Rolled back to '' @ take 7 commit_sha @ ''. New HEAD: '' @ take 7 h
                          @ '' (mode: '' @ ?mode @ '')'')"
    by (auto simp: rollback_to_commit_def on_success_def Let_def split: sum.splits prod.splits)
  from rollback_success [OF h] m out dflt_mode show ?thesis
    by blast
qed

theorem rollback_to_commit_confirmation_witness:
  "fst (rollback_to_commit None ''/repo'' ''0000000000000000000000000000000000000000'' None
          two_commit_world) =
     Inr (Text ''Rolled back to 0000000. New HEAD: 0000000 (mode: soft)'')
   \<and> (\<exists>r c r'.
         repo_at two_commit_world ''/repo'' = Some r
         \<and> resolve_ref r ''0000000000000000000000000000000000000000'' = Some c
         \<and> repo_at
             (snd (rollback_to_commit None ''/repo''
                     ''0000000000000000000000000000000000000000'' None two_commit_world))
             ''/repo'' = Some r'
         \<and> head_sha r' = Some (obj_sha c))"
proof -
  have "\<exists>manager r c r'.
          get_manager None (Some ''/repo'') = Inr manager
          \<and> repo_at two_commit_world (bound_path manager) = Some r
          \<and> resolve_ref r ''0000000000000000000000000000000000000000'' = Some c
          \<and> repo_at
              (snd (rollback_to_commit None ''/repo''
                      ''0000000000000000000000000000000000000000'' None two_commit_world))
              (bound_path manager) = Some r'
          \<and> head_sha r' = Some (obj_sha c)"
    using rollback_to_commit_confirmation [OF pair_of_fst [OF rollback_two_commit_world]]
    by blast
  then show ?thesis
    using rollback_two_commit_world by (auto simp: get_manager_repo)
qed

section \<open>Listing commits\<close>












section \<open>The default path and the first three tools\<close>

lemma status_empty_path:
  "fst (get_repo_status (Some ''/repo'') [] committed_world) = Inl NotFoundError"
  by (simp add: get_repo_status_def GitManager_get_status_def committed_world_def world_with_def
      on_success_def)

lemma status_default_path:
  "fst (get_repo_status (Some ''/repo'') ''/repo'' committed_world) =
     Inr (StatusJson
            \<lparr>is_initialized = True, current_branch = Some ''main'', has_changes = False,
             staged_files = [], modified_files = [], untracked_files = []\<rparr>)"
  by (simp add: get_repo_status_def status_committed_world on_success_def)

lemma branches_empty_path:
  "list_branches (Some ''/repo'') [] committed_world =
     list_branches (Some ''/repo'') ''/repo'' committed_world"
  by (simp add: list_branches_def get_manager_empty_default get_manager_repo)

lemma branches_committed_world:
  "fst (list_branches (Some ''/repo'') [] committed_world) =
     Inr (Text ''* main (0000000000000000000000000000000000000000): first'')"
  by (simp add: list_branches_def get_manager_empty_default GitManager_list_branches_def
      open_repo_def committed_world_def world_with_def committed_repo_def first_commit_def
      branch_info_def branch_line_def find_obj_def on_success_def)

lemma initialize_empty_path:
  "repo_at (snd (initialize_repo (Some ''/repo'') [] None committed_world)) [] =
     Some empty_repository
   \<and> repo_at (snd (initialize_repo (Some ''/repo'') [] None committed_world)) ''/repo'' =
       Some committed_repo"
  by (simp add: initialize_repo_def GitManager_initialize_def committed_world_def world_with_def
      repo_at_def put_dir_def default_arg_def on_success_def Let_def)

text \<open>
  C1 does not hold of the code. \<open>initialize_repo\<close>, \<open>get_repo_status\<close> and
  \<open>commit_all_changes\<close> construct the manager from \<open>repo_path\<close> as it is, so their
  result does not depend on the default path. With the default \<open>/repo\<close> and an empty
  \<open>repo_path\<close>, \<open>list_branches\<close> works on \<open>/repo\<close>, while \<open>get_repo_status\<close> looks for
  the empty path and fails, and \<open>initialize_repo\<close> creates a repository at the empty
  path and leaves the one of \<open>/repo\<close> as it is.
\<close>

theorem default_path_ignored_by_three_tools:
  "initialize_repo dflt repo_path initial_commit w = initialize_repo None repo_path initial_commit w
   \<and> get_repo_status dflt repo_path w = get_repo_status None repo_path w
   \<and> commit_all_changes dflt repo_path msg w = commit_all_changes None repo_path msg w
   \<and> list_branches (Some ''/repo'') [] committed_world =
       list_branches (Some ''/repo'') ''/repo'' committed_world
   \<and> fst (list_branches (Some ''/repo'') [] committed_world) =
       Inr (Text ''* main (0000000000000000000000000000000000000000): first'')
   \<and> fst (get_repo_status (Some ''/repo'') ''/repo'' committed_world) =
       Inr (StatusJson
              \<lparr>is_initialized = True, current_branch = Some ''main'', has_changes = False,
               staged_files = [], modified_files = [], untracked_files = []\<rparr>)
   \<and> fst (get_repo_status (Some ''/repo'') [] committed_world) = Inl NotFoundError
   \<and> repo_at (snd (initialize_repo (Some ''/repo'') [] None committed_world)) [] =
       Some empty_repository
   \<and> repo_at (snd (initialize_repo (Some ''/repo'') [] None committed_world)) ''/repo'' =
       Some committed_repo"
proof -
  have "initialize_repo dflt repo_path initial_commit w =
          initialize_repo None repo_path initial_commit w"
    by (simp add: initialize_repo_def)
  moreover have "get_repo_status dflt repo_path w = get_repo_status None repo_path w"
    by (simp add: get_repo_status_def)
  moreover have "commit_all_changes dflt repo_path msg w = commit_all_changes None repo_path msg w"
    by (simp add: commit_all_changes_def)
  ultimately show ?thesis
    using branches_empty_path branches_committed_world status_default_path status_empty_path
      initialize_empty_path
    by blast
qed

end
